theory Spec2Isabelle
  imports Complex_Main
begin

section \<open>plot\_training.py: the training-metrics report script\<close>

text \<open>
  The script is one straight-line sequence of calls into pandas and matplotlib. The
  embedding keeps that shape: the working directory is a map from file names to
  contents, every call that can raise returns a sum (\<open>Inl\<close> the exception), the
  figure that the plotting calls build up is a record that is passed along, and a run
  yields how the process ended, the working directory it left and the externally
  visible calls it made, in order.

  pandas and matplotlib are not part of the repository. What they decide (how file
  contents parse, which data \<open>Axes.plot\<close> rejects, whether the image can be written,
  whether standard output can encode a line that is not ASCII, whether the display
  raises, which bytes a figure renders to) is a parameter of the
  model, the record \<open>env\<close>; the script is verified for every such environment.
\<close>

subsection \<open>Exceptions and process outcomes\<close>

datatype exn =
    FileNotFoundError
  | EmptyDataError
  | ParserError
  | KeyError string
  | IndexError
  | TypeError
  | ValueError
  | PermissionError
  | UnicodeEncodeError
  | OtherError string

text \<open>
  How the process ends: it runs off the end of the script, \<open>sys.exit(n)\<close> is called,
  or an exception reaches the top level (the interpreter prints a traceback and the
  exit status is 1).
\<close>

datatype outcome = Finished | SysExit int | Uncaught exn

fun exit_code :: "outcome \<Rightarrow> int" where
  "exit_code Finished = 0"
| "exit_code (SysExit n) = n"
| "exit_code (Uncaught e) = 1"

subsection \<open>The table\<close>

datatype cell = Num real | Str string

fun is_num :: "cell \<Rightarrow> bool" where
  "is_num (Num r) = True"
| "is_num (Str s) = False"

text \<open>
  A \<open>DataFrame\<close>: the number of rows (the length of its index) and its columns in
  order, each a name with its values.
\<close>

record dataframe =
  index_len :: nat
  cols :: "(string \<times> cell list) list"

text \<open>\<open>df.empty\<close>: some axis has length zero.\<close>

definition df_empty :: "dataframe \<Rightarrow> bool" where
  "df_empty df = (index_len df = 0 \<or> cols df = [])"

text \<open>\<open>df[name]\<close>: the column, or \<open>KeyError\<close> when there is none of that name.\<close>

definition getitem :: "dataframe \<Rightarrow> string \<Rightarrow> exn + cell list" where
  "getitem df name =
     (case map_of (cols df) name of
        None \<Rightarrow> Inl (KeyError name)
      | Some c \<Rightarrow> Inr c)"

subsection \<open>The figure\<close>

text \<open>
  Keyword arguments of \<open>Axes.plot\<close> that the script uses; \<open>None\<close> is an argument not
  given, for which matplotlib takes its configured default.
\<close>

record kwargs =
  alpha :: "real option"
  label :: "string option"
  linewidth :: "real option"
  color :: "string option"

definition no_kwargs :: kwargs where
  "no_kwargs = \<lparr>alpha = None, label = None, linewidth = None, color = None\<rparr>"

record line2d = kwargs +
  xdata :: "cell list"
  ydata :: "cell list"

record axes =
  lines :: "line2d list"
  xlabel :: string
  ylabel :: string
  title :: string
  legend :: "string list option"
  grid :: "(bool \<times> real option) option"

definition new_axes :: axes where
  "new_axes = \<lparr>lines = [], xlabel = [], ylabel = [], title = [],
                legend = None, grid = None\<rparr>"

record figure =
  figsize :: "real \<times> real"
  suptitle :: "(string \<times> real \<times> string) option"
  axes_grid :: "axes list list"
  tight_layout :: bool

subsection \<open>The environment\<close>

record env =
  parse_csv :: "string \<Rightarrow> exn + dataframe"
  plot_error :: "axes \<Rightarrow> cell list \<Rightarrow> cell list \<Rightarrow> exn option"
  savefig_error :: "string \<Rightarrow> exn option"
  render :: "figure \<Rightarrow> real \<Rightarrow> string \<Rightarrow> string"
  print_error :: "string \<Rightarrow> exn option"
  show_error :: "exn option"

type_synonym directory = "string \<rightharpoonup> string"

text \<open>
  \<open>pd.read_csv(path)\<close>: opening a path that does not exist raises
  \<open>FileNotFoundError\<close>; the contents of an existing file go to the parser.
\<close>

definition read_csv :: "env \<Rightarrow> directory \<Rightarrow> string \<Rightarrow> exn + dataframe" where
  "read_csv E fs path =
     (case fs path of
        None \<Rightarrow> Inl FileNotFoundError
      | Some content \<Rightarrow> parse_csv E content)"

text \<open>
  \<open>print(s)\<close>: the line is encoded for standard output. A line of ASCII characters
  is encodable whatever the encoding; for any other line the encoding decides, and
  \<open>print\<close> raises (\<open>UnicodeEncodeError\<close>) when it cannot encode the line.
\<close>

definition is_ascii :: "char \<Rightarrow> bool" where
  "is_ascii c = (\<not> digit7 c)"

definition py_print :: "env \<Rightarrow> string \<Rightarrow> exn option" where
  "py_print E s = (if list_all is_ascii s then None else print_error E s)"

subsection \<open>Sequencing calls that can raise\<close>

definition bindE :: "exn + 'a \<Rightarrow> ('a \<Rightarrow> exn + 'b) \<Rightarrow> exn + 'b" where
  "bindE m f = (case m of Inl e \<Rightarrow> Inl e | Inr x \<Rightarrow> f x)"

subsection \<open>The matplotlib calls of the script\<close>

text \<open>\<open>plt.subplots(nrows, ncols, figsize=...)\<close>: a new figure with a grid of empty axes.\<close>

definition subplots :: "nat \<Rightarrow> nat \<Rightarrow> real \<times> real \<Rightarrow> figure" where
  "subplots nr nc sz =
     \<lparr>figsize = sz, suptitle = None,
      axes_grid = replicate nr (replicate nc new_axes), tight_layout = False\<rparr>"

definition fig_suptitle :: "string \<Rightarrow> real \<Rightarrow> string \<Rightarrow> figure \<Rightarrow> figure" where
  "fig_suptitle t fontsize fontweight fig = fig\<lparr>suptitle := Some (t, fontsize, fontweight)\<rparr>"

text \<open>
  \<open>ax.plot(x, y, **kw)\<close>: the library may reject the data; otherwise one more line
  on the axes.
\<close>

definition ax_plot :: "env \<Rightarrow> cell list \<Rightarrow> cell list \<Rightarrow> kwargs \<Rightarrow> axes \<Rightarrow> exn + axes" where
  "ax_plot E x y kw ax =
     (case plot_error E ax x y of
        Some e \<Rightarrow> Inl e
      | None \<Rightarrow>
          Inr (ax\<lparr>lines := lines ax @
                 [\<lparr>alpha = alpha kw, label = label kw, linewidth = linewidth kw,
                   color = color kw, xdata = x, ydata = y\<rparr>]\<rparr>))"

definition set_xlabel :: "string \<Rightarrow> axes \<Rightarrow> axes" where
  "set_xlabel s ax = ax\<lparr>xlabel := s\<rparr>"

definition set_ylabel :: "string \<Rightarrow> axes \<Rightarrow> axes" where
  "set_ylabel s ax = ax\<lparr>ylabel := s\<rparr>"

definition set_title :: "string \<Rightarrow> axes \<Rightarrow> axes" where
  "set_title s ax = ax\<lparr>title := s\<rparr>"

text \<open>\<open>ax.legend()\<close>: one entry for each line drawn so far that has a label.\<close>

definition ax_legend :: "axes \<Rightarrow> axes" where
  "ax_legend ax = ax\<lparr>legend := Some (List.map_filter label (lines ax))\<rparr>"

definition ax_grid :: "bool \<Rightarrow> real option \<Rightarrow> axes \<Rightarrow> axes" where
  "ax_grid visible a ax = ax\<lparr>grid := Some (visible, a)\<rparr>"

text \<open>
  \<open>ax = axes[i, j]\<close> followed by calls on \<open>ax\<close>: the axes object lives in the figure,
  so the calls change the figure. An index outside the grid raises \<open>IndexError\<close>.
\<close>

definition on_axes :: "nat \<Rightarrow> nat \<Rightarrow> (axes \<Rightarrow> exn + axes) \<Rightarrow> figure \<Rightarrow> exn + figure" where
  "on_axes i j body fig =
     (if i < length (axes_grid fig) \<and> j < length (axes_grid fig ! i)
      then bindE (body (axes_grid fig ! i ! j))
             (\<lambda>ax. Inr (fig\<lparr>axes_grid := (axes_grid fig)[i := (axes_grid fig ! i)[j := ax]]\<rparr>))
      else Inl IndexError)"

definition plt_tight_layout :: "figure \<Rightarrow> figure" where
  "plt_tight_layout fig = fig\<lparr>tight_layout := True\<rparr>"

definition plt_savefig ::
  "env \<Rightarrow> string \<Rightarrow> real \<Rightarrow> string \<Rightarrow> figure \<Rightarrow> directory \<Rightarrow> exn + directory" where
  "plt_savefig E fname dpi bbox_inches fig fs =
     (case savefig_error E fname of
        Some e \<Rightarrow> Inl e
      | None \<Rightarrow> Inr (fs(fname \<mapsto> render E fig dpi bbox_inches)))"

subsection \<open>The script\<close>

text \<open>Plot 1: reward over episodes (lines 26 to 33).\<close>

definition plot_rewards :: "env \<Rightarrow> dataframe \<Rightarrow> axes \<Rightarrow> exn + axes" where
  "plot_rewards E df ax =
     bindE (getitem df ''episode'') (\<lambda>x.
     bindE (getitem df ''reward'') (\<lambda>y.
     bindE (ax_plot E x y
              (no_kwargs\<lparr>alpha := Some 0.6, label := Some ''Episode Reward''\<rparr>) ax) (\<lambda>ax.
     bindE (getitem df ''episode'') (\<lambda>x.
     bindE (getitem df ''avg100'') (\<lambda>y.
     bindE (ax_plot E x y
              (no_kwargs\<lparr>linewidth := Some 2, label := Some ''Avg100 Reward'',
                 color := Some ''orange''\<rparr>) ax) (\<lambda>ax.
     let ax = set_xlabel ''Episode'' ax;
         ax = set_ylabel ''Reward'' ax;
         ax = set_title ''Rewards'' ax;
         ax = ax_legend ax;
         ax = ax_grid True (Some 0.3) ax
     in Inr ax))))))"

text \<open>Plot 2: loss over episodes (lines 36 to 41).\<close>

definition plot_loss :: "env \<Rightarrow> dataframe \<Rightarrow> axes \<Rightarrow> exn + axes" where
  "plot_loss E df ax =
     bindE (getitem df ''episode'') (\<lambda>x.
     bindE (getitem df ''loss'') (\<lambda>y.
     bindE (ax_plot E x y
              (no_kwargs\<lparr>color := Some ''red'', alpha := Some 0.7\<rparr>) ax) (\<lambda>ax.
     let ax = set_xlabel ''Episode'' ax;
         ax = set_ylabel ''Loss (EMA)'' ax;
         ax = set_title ''Training Loss'' ax;
         ax = ax_grid True (Some 0.3) ax
     in Inr ax)))"

text \<open>Plot 3: epsilon decay (lines 44 to 49).\<close>

definition plot_epsilon :: "env \<Rightarrow> dataframe \<Rightarrow> axes \<Rightarrow> exn + axes" where
  "plot_epsilon E df ax =
     bindE (getitem df ''episode'') (\<lambda>x.
     bindE (getitem df ''epsilon'') (\<lambda>y.
     bindE (ax_plot E x y (no_kwargs\<lparr>color := Some ''green''\<rparr>) ax) (\<lambda>ax.
     let ax = set_xlabel ''Episode'' ax;
         ax = set_ylabel ''Epsilon'' ax;
         ax = set_title ''Exploration Rate Decay'' ax;
         ax = ax_grid True (Some 0.3) ax
     in Inr ax)))"

text \<open>Plot 4: steps per second (lines 52 to 57).\<close>

definition plot_throughput :: "env \<Rightarrow> dataframe \<Rightarrow> axes \<Rightarrow> exn + axes" where
  "plot_throughput E df ax =
     bindE (getitem df ''episode'') (\<lambda>x.
     bindE (getitem df ''steps_per_sec'') (\<lambda>y.
     bindE (ax_plot E x y
              (no_kwargs\<lparr>color := Some ''purple'', alpha := Some 0.7\<rparr>) ax) (\<lambda>ax.
     let ax = set_xlabel ''Episode'' ax;
         ax = set_ylabel ''Steps/Second'' ax;
         ax = set_title ''Training Throughput'' ax;
         ax = ax_grid True (Some 0.3) ax
     in Inr ax)))"

text \<open>Lines 22 to 59: the figure as it stands when \<open>plt.savefig\<close> is reached.\<close>

definition build_figure :: "env \<Rightarrow> dataframe \<Rightarrow> exn + figure" where
  "build_figure E df =
     (let fig = subplots 2 2 (14, 10);
          fig = fig_suptitle ''Breakout RL Training Metrics'' 16 ''bold'' fig
      in bindE (on_axes 0 0 (plot_rewards E df) fig) (\<lambda>fig.
         bindE (on_axes 0 1 (plot_loss E df) fig) (\<lambda>fig.
         bindE (on_axes 1 0 (plot_epsilon E df) fig) (\<lambda>fig.
         bindE (on_axes 1 1 (plot_throughput E df) fig) (\<lambda>fig.
         Inr (plt_tight_layout fig))))))"

text \<open>
  What a run does to the outside, in order: a line printed, the image written by
  \<open>plt.savefig\<close>, \<open>plt.show()\<close> called.
\<close>

datatype event =
    Print string
  | Savefig string figure real string
  | Show figure

record run =
  outcome :: outcome
  files :: directory
  events :: "event list"

definition msg_not_found :: string where
  "msg_not_found = ''Error: train-log.csv not found. Run training first.''"

definition msg_empty :: string where
  "msg_empty = ''Error: train-log.csv is empty.''"

text \<open>The confirmation starts with U+2713, here as its three UTF-8 bytes.\<close>

definition msg_saved :: string where
  "msg_saved = [CHR 0xE2, CHR 0x9C, CHR 0x93] @ '' Saved visualization to training_metrics.png''"

text \<open>
  The whole script. The \<open>try\<close> around \<open>pd.read_csv\<close> has one handler, for
  \<open>FileNotFoundError\<close>; every other exception, there and later, reaches the top level.
  When the confirmation cannot be printed the image is already written and
  \<open>plt.show()\<close> is not reached. \<open>plt.show()\<close> is recorded as called also when it
  raises.
\<close>

definition plot_training :: "env \<Rightarrow> directory \<Rightarrow> run" where
  "plot_training E fs =
     (case read_csv E fs ''train-log.csv'' of
        Inl e \<Rightarrow>
          if e = FileNotFoundError
          then (case py_print E msg_not_found of
                  Some e' \<Rightarrow> \<lparr>outcome = Uncaught e', files = fs, events = []\<rparr>
                | None \<Rightarrow>
                    \<lparr>outcome = SysExit 1, files = fs, events = [Print msg_not_found]\<rparr>)
          else \<lparr>outcome = Uncaught e, files = fs, events = []\<rparr>
      | Inr df \<Rightarrow>
          if df_empty df
          then (case py_print E msg_empty of
                  Some e' \<Rightarrow> \<lparr>outcome = Uncaught e', files = fs, events = []\<rparr>
                | None \<Rightarrow>
                    \<lparr>outcome = SysExit 1, files = fs, events = [Print msg_empty]\<rparr>)
          else
            (case build_figure E df of
               Inl e \<Rightarrow> \<lparr>outcome = Uncaught e, files = fs, events = []\<rparr>
             | Inr fig \<Rightarrow>
                 (case plt_savefig E ''training_metrics.png'' 150 ''tight'' fig fs of
                    Inl e \<Rightarrow> \<lparr>outcome = Uncaught e, files = fs, events = []\<rparr>
                  | Inr fs' \<Rightarrow>
                      (case py_print E msg_saved of
                         Some e \<Rightarrow>
                           \<lparr>outcome = Uncaught e, files = fs',
                            events = [Savefig ''training_metrics.png'' fig 150 ''tight'']\<rparr>
                       | None \<Rightarrow>
                           \<lparr>outcome = (case show_error E of
                                         Some e \<Rightarrow> Uncaught e
                                       | None \<Rightarrow> Finished),
                            files = fs',
                            events = [Savefig ''training_metrics.png'' fig 150 ''tight'',
                                      Print msg_saved, Show fig]\<rparr>))))"

text \<open>The lines on standard output, and the images written, of a run.\<close>

fun printed :: "event list \<Rightarrow> string list" where
  "printed [] = []"
| "printed (Print s # es) = s # printed es"
| "printed (e # es) = printed es"

fun saved :: "event list \<Rightarrow> (string \<times> figure \<times> real \<times> string) list" where
  "saved [] = []"
| "saved (Savefig f fig d b # es) = (f, fig, d, b) # saved es"
| "saved (e # es) = saved es"

subsection \<open>Inputs and defaults that the specification speaks of\<close>

definition required_columns :: "string list" where
  "required_columns =
     [''episode'', ''reward'', ''avg100'', ''loss'', ''epsilon'', ''steps_per_sec'']"

text \<open>
  A well-formed table: at least one row, and each of the six columns present with
  one numeric value for every row.
\<close>

definition well_formed :: "dataframe \<Rightarrow> bool" where
  "well_formed df =
     (0 < index_len df \<and>
      list_all (\<lambda>k. case map_of (cols df) k of
                       None \<Rightarrow> False
                     | Some c \<Rightarrow> length c = index_len df \<and> list_all is_num c)
        required_columns)"

text \<open>
  The width and colour a line is drawn with: the keyword argument when given,
  otherwise the configured default (\<open>lines.linewidth\<close>, the first colour of the
  property cycle).
\<close>

definition drawn_linewidth :: "real \<Rightarrow> line2d \<Rightarrow> real" where
  "drawn_linewidth rc l = (case linewidth l of None \<Rightarrow> rc | Some w \<Rightarrow> w)"

definition drawn_color :: "string \<Rightarrow> line2d \<Rightarrow> string" where
  "drawn_color rc l = (case color l of None \<Rightarrow> rc | Some c \<Rightarrow> c)"

subsection \<open>Example inputs\<close>

text \<open>The three-episode log of the specification's scenario, and the table it parses to.\<close>

definition header_line :: string where
  "header_line = ''episode,reward,avg100,loss,epsilon,steps_per_sec'' @ [CHR 0x0A]"

definition example_csv :: string where
  "example_csv = header_line @
     ''0,1.0,1.0,0.9,1.0,50'' @ [CHR 0x0A] @
     ''1,2.0,1.5,0.7,0.9,55'' @ [CHR 0x0A] @
     ''2,1.5,1.5,0.6,0.8,52'' @ [CHR 0x0A]"

definition example_df :: dataframe where
  "example_df =
     \<lparr>index_len = 3,
      cols = [(''episode'', [Num 0, Num 1, Num 2]),
              (''reward'', [Num 1, Num 2, Num 1.5]),
              (''avg100'', [Num 1, Num 1.5, Num 1.5]),
              (''loss'', [Num 0.9, Num 0.7, Num 0.6]),
              (''epsilon'', [Num 1, Num 0.9, Num 0.8]),
              (''steps_per_sec'', [Num 50, Num 55, Num 52])]\<rparr>"

text \<open>A log with the header row only.\<close>

definition header_only_df :: dataframe where
  "header_only_df = \<lparr>index_len = 0, cols = map (\<lambda>k. (k, [])) required_columns\<rparr>"

text \<open>A log that lacks every column after \<open>reward\<close>.\<close>

definition short_csv :: string where
  "short_csv = ''episode,reward'' @ [CHR 0x0A] @ ''0,1.0'' @ [CHR 0x0A]"

definition short_df :: dataframe where
  "short_df = \<lparr>index_len = 1, cols = [(''episode'', [Num 0]), (''reward'', [Num 1])]\<rparr>"

text \<open>A log whose one loss value is not a number.\<close>

definition text_csv :: string where
  "text_csv = header_line @ ''0,1.0,1.0,abc,1.0,50'' @ [CHR 0x0A]"

definition text_df :: dataframe where
  "text_df =
     \<lparr>index_len = 1,
      cols = [(''episode'', [Num 0]), (''reward'', [Num 1]), (''avg100'', [Num 1]),
              (''loss'', [Str ''abc'']), (''epsilon'', [Num 1]),
              (''steps_per_sec'', [Num 50])]\<rparr>"

text \<open>
  An environment for the examples. The parser knows the files above and raises
  \<open>EmptyDataError\<close> on a file of zero bytes. The plotting library rejects x and y of
  different lengths and accepts everything else: values that are not numbers are
  plotted as categories. The image can be written, standard output encodes every line
  and the display returns.
\<close>

definition example_parse :: "string \<Rightarrow> exn + dataframe" where
  "example_parse content =
     (if content = [] then Inl EmptyDataError
      else if content = header_line then Inr header_only_df
      else if content = example_csv then Inr example_df
      else if content = short_csv then Inr short_df
      else if content = text_csv then Inr text_df
      else Inl ParserError)"

definition example_env :: env where
  "example_env =
     \<lparr>parse_csv = example_parse,
      plot_error = (\<lambda>ax x y. if length x = length y then None else Some ValueError),
      savefig_error = (\<lambda>fname. None),
      render = (\<lambda>fig dpi bbox_inches. concat (map title (concat (axes_grid fig)))),
      print_error = (\<lambda>s. None),
      show_error = None\<rparr>"

text \<open>The same with a display that raises.\<close>

definition broken_display_env :: env where
  "broken_display_env = example_env\<lparr>show_error := Some (OtherError ''no display'')\<rparr>"

section \<open>Properties\<close>

subsection \<open>Auxiliary facts\<close>

lemma bindE_simps [simp]: "bindE (Inl e) f = Inl e" "bindE (Inr x) f = f x"
  by (simp_all add: bindE_def)

lemma bindE_Inr_iff: "bindE m f = Inr y \<longleftrightarrow> (\<exists>x. m = Inr x \<and> f x = Inr y)"
  by (cases m) simp_all

lemma ax_plot_Inr_iff:
  "ax_plot E x y kw ax = Inr ax' \<longleftrightarrow>
     plot_error E ax x y = None \<and>
     ax' = ax\<lparr>lines := lines ax @
                 [\<lparr>alpha = alpha kw, label = label kw, linewidth = linewidth kw,
                   color = color kw, xdata = x, ydata = y\<rparr>]\<rparr>"
  by (auto simp: ax_plot_def split: option.splits)

lemmas ax_call_defs =
  no_kwargs_def set_xlabel_def set_ylabel_def set_title_def ax_legend_def ax_grid_def
  List.map_filter_def

lemma plot_rewards_Inr:
  assumes "plot_rewards E df ax = Inr ax'"
  shows "\<exists>x r a ax1. getitem df ''episode'' = Inr x \<and> getitem df ''reward'' = Inr r \<and>
           getitem df ''avg100'' = Inr a \<and>
           plot_error E ax x r = None \<and> plot_error E ax1 x a = None \<and>
           ax' = ax\<lparr>lines := lines ax @
                  [\<lparr>alpha = Some 0.6, label = Some ''Episode Reward'', linewidth = None,
                    color = None, xdata = x, ydata = r\<rparr>,
                   \<lparr>alpha = None, label = Some ''Avg100 Reward'', linewidth = Some 2,
                    color = Some ''orange'', xdata = x, ydata = a\<rparr>],
                xlabel := ''Episode'', ylabel := ''Reward'', title := ''Rewards'',
                legend := Some (List.map_filter label (lines ax) @
                                [''Episode Reward'', ''Avg100 Reward'']),
                grid := Some (True, Some 0.3)\<rparr>"
  using assms
  by (auto simp: plot_rewards_def bindE_Inr_iff ax_plot_Inr_iff ax_call_defs)

lemma plot_loss_Inr:
  assumes "plot_loss E df ax = Inr ax'"
  shows "\<exists>x y. getitem df ''episode'' = Inr x \<and> getitem df ''loss'' = Inr y \<and>
           plot_error E ax x y = None \<and>
           ax' = ax\<lparr>lines := lines ax @
                  [\<lparr>alpha = Some 0.7, label = None, linewidth = None,
                    color = Some ''red'', xdata = x, ydata = y\<rparr>],
                xlabel := ''Episode'', ylabel := ''Loss (EMA)'', title := ''Training Loss'',
                grid := Some (True, Some 0.3)\<rparr>"
  using assms
  by (auto simp: plot_loss_def bindE_Inr_iff ax_plot_Inr_iff ax_call_defs)

lemma plot_epsilon_Inr:
  assumes "plot_epsilon E df ax = Inr ax'"
  shows "\<exists>x y. getitem df ''episode'' = Inr x \<and> getitem df ''epsilon'' = Inr y \<and>
           plot_error E ax x y = None \<and>
           ax' = ax\<lparr>lines := lines ax @
                  [\<lparr>alpha = None, label = None, linewidth = None,
                    color = Some ''green'', xdata = x, ydata = y\<rparr>],
                xlabel := ''Episode'', ylabel := ''Epsilon'',
                title := ''Exploration Rate Decay'',
                grid := Some (True, Some 0.3)\<rparr>"
  using assms
  by (auto simp: plot_epsilon_def bindE_Inr_iff ax_plot_Inr_iff ax_call_defs)

lemma plot_throughput_Inr:
  assumes "plot_throughput E df ax = Inr ax'"
  shows "\<exists>x y. getitem df ''episode'' = Inr x \<and> getitem df ''steps_per_sec'' = Inr y \<and>
           plot_error E ax x y = None \<and>
           ax' = ax\<lparr>lines := lines ax @
                  [\<lparr>alpha = Some 0.7, label = None, linewidth = None,
                    color = Some ''purple'', xdata = x, ydata = y\<rparr>],
                xlabel := ''Episode'', ylabel := ''Steps/Second'',
                title := ''Training Throughput'',
                grid := Some (True, Some 0.3)\<rparr>"
  using assms
  by (auto simp: plot_throughput_def bindE_Inr_iff ax_plot_Inr_iff ax_call_defs)

lemma on_axes_Inr:
  assumes "on_axes i j body fig = Inr fig'"
  shows "i < length (axes_grid fig) \<and> j < length (axes_grid fig ! i) \<and>
         (\<exists>ax. body (axes_grid fig ! i ! j) = Inr ax \<and>
           fig' = fig\<lparr>axes_grid := (axes_grid fig)[i := (axes_grid fig ! i)[j := ax]]\<rparr>)"
  using assms by (auto simp: on_axes_def bindE_Inr_iff split: if_splits)

lemma grid_2x2: "replicate 2 (replicate 2 a) = [[a, a], [a, a]]"
  by (simp add: numeral_2_eq_2)

text \<open>The figure that reaches savefig.\<close>

lemma build_figure_Inr:
  assumes "build_figure E df = Inr fig"
  shows "\<exists>x r a l e s.
           getitem df ''episode'' = Inr x \<and> getitem df ''reward'' = Inr r \<and>
           getitem df ''avg100'' = Inr a \<and> getitem df ''loss'' = Inr l \<and>
           getitem df ''epsilon'' = Inr e \<and> getitem df ''steps_per_sec'' = Inr s \<and>
           (\<exists>ax. plot_error E ax x r = None) \<and> (\<exists>ax. plot_error E ax x a = None) \<and>
           (\<exists>ax. plot_error E ax x l = None) \<and> (\<exists>ax. plot_error E ax x e = None) \<and>
           (\<exists>ax. plot_error E ax x s = None) \<and>
           fig = \<lparr>figsize = (14, 10),
                  suptitle = Some (''Breakout RL Training Metrics'', 16, ''bold''),
                  axes_grid =
                   [[\<lparr>lines =
                        [\<lparr>alpha = Some 0.6, label = Some ''Episode Reward'', linewidth = None,
                          color = None, xdata = x, ydata = r\<rparr>,
                         \<lparr>alpha = None, label = Some ''Avg100 Reward'', linewidth = Some 2,
                          color = Some ''orange'', xdata = x, ydata = a\<rparr>],
                      xlabel = ''Episode'', ylabel = ''Reward'', title = ''Rewards'',
                      legend = Some [''Episode Reward'', ''Avg100 Reward''],
                      grid = Some (True, Some 0.3)\<rparr>,
                     \<lparr>lines =
                        [\<lparr>alpha = Some 0.7, label = None, linewidth = None,
                          color = Some ''red'', xdata = x, ydata = l\<rparr>],
                      xlabel = ''Episode'', ylabel = ''Loss (EMA)'', title = ''Training Loss'',
                      legend = None, grid = Some (True, Some 0.3)\<rparr>],
                    [\<lparr>lines =
                        [\<lparr>alpha = None, label = None, linewidth = None,
                          color = Some ''green'', xdata = x, ydata = e\<rparr>],
                      xlabel = ''Episode'', ylabel = ''Epsilon'',
                      title = ''Exploration Rate Decay'',
                      legend = None, grid = Some (True, Some 0.3)\<rparr>,
                     \<lparr>lines =
                        [\<lparr>alpha = Some 0.7, label = None, linewidth = None,
                          color = Some ''purple'', xdata = x, ydata = s\<rparr>],
                      xlabel = ''Episode'', ylabel = ''Steps/Second'',
                      title = ''Training Throughput'',
                      legend = None, grid = Some (True, Some 0.3)\<rparr>]],
                  tight_layout = True\<rparr>"
proof -
  let ?f0 = "fig_suptitle ''Breakout RL Training Metrics'' 16 ''bold'' (subplots 2 2 (14, 10))"
  from assms obtain f1 f2 f3 f4 where
    s1: "on_axes 0 0 (plot_rewards E df) ?f0 = Inr f1" and
    s2: "on_axes 0 1 (plot_loss E df) f1 = Inr f2" and
    s3: "on_axes 1 0 (plot_epsilon E df) f2 = Inr f3" and
    s4: "on_axes 1 1 (plot_throughput E df) f3 = Inr f4" and
    fg: "fig = plt_tight_layout f4"
    by (auto simp: build_figure_def bindE_Inr_iff Let_def)
  have g0: "axes_grid ?f0 = [[new_axes, new_axes], [new_axes, new_axes]]"
    by (simp add: fig_suptitle_def subplots_def grid_2x2)
  from on_axes_Inr[OF s1] g0 obtain a1 where
    b1: "plot_rewards E df new_axes = Inr a1" and
    e1: "f1 = ?f0\<lparr>axes_grid := [[a1, new_axes], [new_axes, new_axes]]\<rparr>"
    by auto
  from on_axes_Inr[OF s2] e1 obtain a2 where
    b2: "plot_loss E df new_axes = Inr a2" and
    e2: "f2 = ?f0\<lparr>axes_grid := [[a1, a2], [new_axes, new_axes]]\<rparr>"
    by auto
  from on_axes_Inr[OF s3] e2 obtain a3 where
    b3: "plot_epsilon E df new_axes = Inr a3" and
    e3: "f3 = ?f0\<lparr>axes_grid := [[a1, a2], [a3, new_axes]]\<rparr>"
    by auto
  from on_axes_Inr[OF s4] e3 obtain a4 where
    b4: "plot_throughput E df new_axes = Inr a4" and
    e4: "f4 = ?f0\<lparr>axes_grid := [[a1, a2], [a3, a4]]\<rparr>"
    by auto
  from plot_rewards_Inr[OF b1] plot_loss_Inr[OF b2] plot_epsilon_Inr[OF b3]
    plot_throughput_Inr[OF b4]
  show ?thesis
    unfolding fg e4
    by (auto simp: plt_tight_layout_def fig_suptitle_def subplots_def new_axes_def
        List.map_filter_def)
qed

lemma getitem_Inr_iff: "getitem df k = Inr c \<longleftrightarrow> map_of (cols df) k = Some c"
  by (simp add: getitem_def split: option.splits)

lemma getitem_missing: "map_of (cols df) k = None \<Longrightarrow> getitem df k = Inl (KeyError k)"
  by (simp add: getitem_def)

lemma well_formed_column:
  assumes "well_formed df" and "k \<in> set required_columns"
  shows "\<exists>c. getitem df k = Inr c \<and> length c = index_len df \<and> list_all is_num c"
proof -
  from assms have "case map_of (cols df) k of
                     None \<Rightarrow> False
                   | Some c \<Rightarrow> length c = index_len df \<and> list_all is_num c"
    by (auto simp: well_formed_def list_all_iff)
  then show ?thesis
    by (cases "map_of (cols df) k") (simp_all add: getitem_def)
qed

text \<open>The figure is built whenever the columns are there and the library takes them.\<close>

lemma build_figure_accepted:
  assumes x: "getitem df ''episode'' = Inr x"
    and r: "getitem df ''reward'' = Inr r" "\<And>ax. plot_error E ax x r = None"
    and a: "getitem df ''avg100'' = Inr a" "\<And>ax. plot_error E ax x a = None"
    and l: "getitem df ''loss'' = Inr l" "\<And>ax. plot_error E ax x l = None"
    and e: "getitem df ''epsilon'' = Inr e" "\<And>ax. plot_error E ax x e = None"
    and s: "getitem df ''steps_per_sec'' = Inr s" "\<And>ax. plot_error E ax x s = None"
  shows "\<exists>fig. build_figure E df = Inr fig"
proof -
  obtain a1 where a1: "plot_rewards E df new_axes = Inr a1"
    by (simp add: plot_rewards_def x r a ax_plot_def Let_def)
  obtain a2 where a2: "plot_loss E df new_axes = Inr a2"
    by (simp add: plot_loss_def x l ax_plot_def Let_def)
  obtain a3 where a3: "plot_epsilon E df new_axes = Inr a3"
    by (simp add: plot_epsilon_def x e ax_plot_def Let_def)
  obtain a4 where a4: "plot_throughput E df new_axes = Inr a4"
    by (simp add: plot_throughput_def x s ax_plot_def Let_def)
  show ?thesis
    by (simp add: build_figure_def Let_def subplots_def fig_suptitle_def grid_2x2
        on_axes_def a1 a2 a3 a4)
qed

lemma build_figure_ok:
  assumes wf: "well_formed df"
    and acc: "\<And>ax x y. list_all is_num x \<Longrightarrow> list_all is_num y \<Longrightarrow> length x = length y \<Longrightarrow>
                plot_error E ax x y = None"
  shows "\<exists>fig. build_figure E df = Inr fig"
proof -
  from well_formed_column[OF wf, of "''episode''"] obtain x where
    x: "getitem df ''episode'' = Inr x" "length x = index_len df" "list_all is_num x"
    by (auto simp: required_columns_def)
  from well_formed_column[OF wf, of "''reward''"] obtain r where
    r: "getitem df ''reward'' = Inr r" "length r = index_len df" "list_all is_num r"
    by (auto simp: required_columns_def)
  from well_formed_column[OF wf, of "''avg100''"] obtain a where
    a: "getitem df ''avg100'' = Inr a" "length a = index_len df" "list_all is_num a"
    by (auto simp: required_columns_def)
  from well_formed_column[OF wf, of "''loss''"] obtain l where
    l: "getitem df ''loss'' = Inr l" "length l = index_len df" "list_all is_num l"
    by (auto simp: required_columns_def)
  from well_formed_column[OF wf, of "''epsilon''"] obtain e where
    e: "getitem df ''epsilon'' = Inr e" "length e = index_len df" "list_all is_num e"
    by (auto simp: required_columns_def)
  from well_formed_column[OF wf, of "''steps_per_sec''"] obtain s where
    s: "getitem df ''steps_per_sec'' = Inr s" "length s = index_len df" "list_all is_num s"
    by (auto simp: required_columns_def)
  have pe: "\<And>ax y. list_all is_num y \<Longrightarrow> length y = index_len df \<Longrightarrow> plot_error E ax x y = None"
    using acc x(2,3) by simp
  show ?thesis
    by (rule build_figure_accepted [OF x(1) r(1) _ a(1) _ l(1) _ e(1) _ s(1)])
      (simp_all add: pe r a l e s)
qed

lemma build_figure_needs_column:
  assumes "k \<in> set required_columns" and "map_of (cols df) k = None"
  shows "\<exists>e. build_figure E df = Inl e"
proof (cases "build_figure E df")
  case (Inl e)
  then show ?thesis by blast
next
  case (Inr fig)
  from build_figure_Inr[OF Inr] assms show ?thesis
    by (auto simp: required_columns_def getitem_Inr_iff)
qed

lemma names_differ: "''train-log.csv'' \<noteq> ''training_metrics.png''"
  by simp

lemma py_print_ascii:
  "py_print E msg_not_found = None" "py_print E msg_empty = None"
  by (simp_all add: py_print_def is_ascii_def msg_not_found_def msg_empty_def)

text \<open>Every run is one of seven.\<close>

lemma plot_training_cases:
  obtains
    (missing) "read_csv E fs ''train-log.csv'' = Inl FileNotFoundError"
      "plot_training E fs =
         \<lparr>outcome = SysExit 1, files = fs, events = [Print msg_not_found]\<rparr>"
  | (read_error) e where "read_csv E fs ''train-log.csv'' = Inl e" "e \<noteq> FileNotFoundError"
      "plot_training E fs = \<lparr>outcome = Uncaught e, files = fs, events = []\<rparr>"
  | (empty) df where "read_csv E fs ''train-log.csv'' = Inr df" "df_empty df"
      "plot_training E fs = \<lparr>outcome = SysExit 1, files = fs, events = [Print msg_empty]\<rparr>"
  | (plot_error) df e where "read_csv E fs ''train-log.csv'' = Inr df" "\<not> df_empty df"
      "build_figure E df = Inl e"
      "plot_training E fs = \<lparr>outcome = Uncaught e, files = fs, events = []\<rparr>"
  | (save_error) df fig e where "read_csv E fs ''train-log.csv'' = Inr df" "\<not> df_empty df"
      "build_figure E df = Inr fig" "savefig_error E ''training_metrics.png'' = Some e"
      "plot_training E fs = \<lparr>outcome = Uncaught e, files = fs, events = []\<rparr>"
  | (print_error) df fig e where "read_csv E fs ''train-log.csv'' = Inr df" "\<not> df_empty df"
      "build_figure E df = Inr fig" "savefig_error E ''training_metrics.png'' = None"
      "py_print E msg_saved = Some e"
      "plot_training E fs =
         \<lparr>outcome = Uncaught e,
          files = fs(''training_metrics.png'' \<mapsto> render E fig 150 ''tight''),
          events = [Savefig ''training_metrics.png'' fig 150 ''tight'']\<rparr>"
  | (saved) df fig where "read_csv E fs ''train-log.csv'' = Inr df" "\<not> df_empty df"
      "build_figure E df = Inr fig" "savefig_error E ''training_metrics.png'' = None"
      "py_print E msg_saved = None"
      "plot_training E fs =
         \<lparr>outcome = (case show_error E of Some e \<Rightarrow> Uncaught e | None \<Rightarrow> Finished),
          files = fs(''training_metrics.png'' \<mapsto> render E fig 150 ''tight''),
          events = [Savefig ''training_metrics.png'' fig 150 ''tight'',
                    Print msg_saved, Show fig]\<rparr>"
proof (cases "read_csv E fs ''train-log.csv''")
  case (Inl e)
  then show ?thesis
    using missing read_error
    by (cases "e = FileNotFoundError") (simp_all add: plot_training_def py_print_ascii)
next
  case (Inr df)
  show ?thesis
  proof (cases "df_empty df")
    case True
    with Inr show ?thesis using empty by (simp add: plot_training_def py_print_ascii)
  next
    case False
    show ?thesis
    proof (cases "build_figure E df")
      case (Inl e)
      with Inr False show ?thesis using plot_error by (simp add: plot_training_def)
    next
      case fig: (Inr fig)
      show ?thesis
      proof (cases "savefig_error E ''training_metrics.png''")
        case None
        with Inr False fig show ?thesis
          using saved print_error
          by (cases "py_print E msg_saved") (simp_all add: plot_training_def plt_savefig_def)
      next
        case (Some e)
        with Inr False fig show ?thesis
          using save_error by (simp add: plot_training_def plt_savefig_def)
      qed
    qed
  qed
qed

lemma example_parse_simps:
  "parse_csv example_env [] = Inl EmptyDataError"
  "parse_csv example_env header_line = Inr header_only_df"
  "parse_csv example_env example_csv = Inr example_df"
  "parse_csv example_env short_csv = Inr short_df"
  "parse_csv example_env text_csv = Inr text_df"
  "parse_csv broken_display_env example_csv = Inr example_df"
  by (simp_all add: example_env_def broken_display_env_def example_parse_def
      header_line_def example_csv_def short_csv_def text_csv_def)

lemma example_well_formed: "well_formed example_df"
  by (simp add: well_formed_def example_df_def required_columns_def)

lemma example_not_empty: "\<not> df_empty example_df" "\<not> df_empty short_df" "\<not> df_empty text_df"
  by (simp_all add: df_empty_def example_df_def short_df_def text_df_def)

subsection \<open>Handled failures\<close>

text \<open>
  Claim C1. When the working directory has no file \<open>train-log.csv\<close>, the run prints
  exactly the line "Error: train-log.csv not found. Run training first.", ends by
  \<open>sys.exit(1)\<close>, so with exit code 1, writes no image and leaves the directory as it
  was.
\<close>

theorem missing_input_reported:
  assumes "fs ''train-log.csv'' = None"
  shows "plot_training E fs =
           \<lparr>outcome = SysExit 1, files = fs,
            events = [Print ''Error: train-log.csv not found. Run training first.'']\<rparr> \<and>
         printed (events (plot_training E fs)) =
           [''Error: train-log.csv not found. Run training first.''] \<and>
         exit_code (outcome (plot_training E fs)) = 1 \<and>
         saved (events (plot_training E fs)) = []"
  using assms
  by (simp add: plot_training_def read_csv_def py_print_ascii) (simp add: msg_not_found_def)

theorem missing_input_reported_witness:
  "[''notes.txt'' \<mapsto> ''x''] ''train-log.csv'' = None \<and>
   plot_training example_env [''notes.txt'' \<mapsto> ''x''] =
     \<lparr>outcome = SysExit 1, files = [''notes.txt'' \<mapsto> ''x''],
      events = [Print ''Error: train-log.csv not found. Run training first.'']\<rparr> \<and>
   exit_code (outcome (plot_training example_env [''notes.txt'' \<mapsto> ''x''])) = 1 \<and>
   saved (events (plot_training example_env [''notes.txt'' \<mapsto> ''x''])) = []"
  using missing_input_reported [of "[''notes.txt'' \<mapsto> ''x'']" example_env] by simp

text \<open>
  Claim C2. When \<open>train-log.csv\<close> exists and parses to a table with zero data rows (a
  header row only), the run prints exactly "Error: train-log.csv is empty.", ends by
  \<open>sys.exit(1)\<close>, writes no image and leaves the directory as it was.
\<close>

theorem header_only_input_reported:
  assumes "fs ''train-log.csv'' = Some content"
    and "parse_csv E content = Inr df"
    and "index_len df = 0"
  shows "plot_training E fs =
           \<lparr>outcome = SysExit 1, files = fs,
            events = [Print ''Error: train-log.csv is empty.'']\<rparr> \<and>
         printed (events (plot_training E fs)) = [''Error: train-log.csv is empty.''] \<and>
         exit_code (outcome (plot_training E fs)) = 1 \<and>
         saved (events (plot_training E fs)) = []"
  using assms
  by (simp add: plot_training_def read_csv_def df_empty_def py_print_ascii)
    (simp add: msg_empty_def)

theorem header_only_input_reported_witness:
  "[''train-log.csv'' \<mapsto> header_line] ''train-log.csv'' = Some header_line \<and>
   parse_csv example_env header_line = Inr header_only_df \<and>
   index_len header_only_df = 0 \<and>
   plot_training example_env [''train-log.csv'' \<mapsto> header_line] =
     \<lparr>outcome = SysExit 1, files = [''train-log.csv'' \<mapsto> header_line],
      events = [Print ''Error: train-log.csv is empty.'']\<rparr> \<and>
   exit_code (outcome (plot_training example_env [''train-log.csv'' \<mapsto> header_line])) = 1 \<and>
   saved (events (plot_training example_env [''train-log.csv'' \<mapsto> header_line])) = []"
proof -
  have h1: "[''train-log.csv'' \<mapsto> header_line] ''train-log.csv'' = Some header_line"
    by simp
  have h2: "parse_csv example_env header_line = Inr header_only_df"
    by (rule example_parse_simps)
  have h3: "index_len header_only_df = 0"
    by (simp add: header_only_df_def)
  from header_only_input_reported
    [where fs = "[''train-log.csv'' \<mapsto> header_line]" and E = example_env, OF h1 h2 h3]
    h1 h2 h3 show ?thesis
    by simp
qed

subsection \<open>Failures that are not handled\<close>

text \<open>
  Claim C5. When \<open>train-log.csv\<close> exists with zero bytes and the parser raises
  \<open>EmptyDataError\<close> on it, the handler for \<open>FileNotFoundError\<close> does not apply and the
  emptiness check is never reached: nothing is printed, and the run ends with the
  exception uncaught, not by \<open>sys.exit(1)\<close>.
\<close>

theorem zero_byte_input_uncaught:
  assumes "fs ''train-log.csv'' = Some []"
    and "parse_csv E [] = Inl EmptyDataError"
  shows "plot_training E fs =
           \<lparr>outcome = Uncaught EmptyDataError, files = fs, events = []\<rparr> \<and>
         printed (events (plot_training E fs)) = [] \<and>
         outcome (plot_training E fs) \<noteq> SysExit 1"
  using assms by (simp add: plot_training_def read_csv_def)

theorem zero_byte_input_uncaught_witness:
  "[''train-log.csv'' \<mapsto> []] ''train-log.csv'' = Some [] \<and>
   parse_csv example_env [] = Inl EmptyDataError \<and>
   plot_training example_env [''train-log.csv'' \<mapsto> []] =
     \<lparr>outcome = Uncaught EmptyDataError, files = [''train-log.csv'' \<mapsto> []], events = []\<rparr> \<and>
   printed (events (plot_training example_env [''train-log.csv'' \<mapsto> []])) = [] \<and>
   outcome (plot_training example_env [''train-log.csv'' \<mapsto> []]) \<noteq> SysExit 1"
proof -
  have h1: "[''train-log.csv'' \<mapsto> []] ''train-log.csv'' = Some []"
    by simp
  have h2: "parse_csv example_env [] = Inl EmptyDataError"
    by (rule example_parse_simps)
  from zero_byte_input_uncaught
    [where fs = "[''train-log.csv'' \<mapsto> []]" and E = example_env, OF h1 h2] h1 h2 show ?thesis
    by simp
qed

subsection \<open>The successful run\<close>

lemma example_read:
  "read_csv example_env [''train-log.csv'' \<mapsto> example_csv] ''train-log.csv'' = Inr example_df"
  "read_csv broken_display_env [''train-log.csv'' \<mapsto> example_csv] ''train-log.csv'' =
     Inr example_df"
  "read_csv example_env [''train-log.csv'' \<mapsto> short_csv] ''train-log.csv'' = Inr short_df"
  "read_csv example_env [''train-log.csv'' \<mapsto> text_csv] ''train-log.csv'' = Inr text_df"
  by (simp_all add: read_csv_def example_parse_simps)

lemma example_env_simps:
  "plot_error example_env ax x y = (if length x = length y then None else Some ValueError)"
  "savefig_error example_env f = None"
  "print_error example_env s = None"
  "py_print example_env s = None"
  "show_error example_env = None"
  "plot_error broken_display_env ax x y =
     (if length x = length y then None else Some ValueError)"
  "savefig_error broken_display_env f = None"
  "py_print broken_display_env s = None"
  "show_error broken_display_env = Some (OtherError ''no display'')"
  by (simp_all add: example_env_def broken_display_env_def py_print_def)

lemma saved_run:
  assumes "outcome (plot_training E fs) = Finished"
  obtains df fig where "read_csv E fs ''train-log.csv'' = Inr df" "\<not> df_empty df"
    "build_figure E df = Inr fig" "savefig_error E ''training_metrics.png'' = None"
    "py_print E msg_saved = None" "show_error E = None"
    "plot_training E fs =
         \<lparr>outcome = Finished,
          files = fs(''training_metrics.png'' \<mapsto> render E fig 150 ''tight''),
          events = [Savefig ''training_metrics.png'' fig 150 ''tight'',
                    Print msg_saved, Show fig]\<rparr>"
  using assms
  by (cases rule: plot_training_cases[of E fs]) (auto split: option.splits)

text \<open>
  Claim C3. When \<open>train-log.csv\<close> parses to a well-formed table (at least one row, the
  six columns present, each with one numeric value for every row), the plotting
  library accepts numeric x and y of equal length, the image can be written, standard
  output can encode the confirmation line and the display returns, then the run
  writes exactly one image, \<open>training_metrics.png\<close>, prints exactly one line, the
  confirmation, and ends with exit code 0.
\<close>

theorem well_formed_input_succeeds:
  assumes "fs ''train-log.csv'' = Some content"
    and "parse_csv E content = Inr df"
    and "well_formed df"
    and "\<And>ax x y. list_all is_num x \<Longrightarrow> list_all is_num y \<Longrightarrow> length x = length y \<Longrightarrow>
           plot_error E ax x y = None"
    and "savefig_error E ''training_metrics.png'' = None"
    and "print_error E msg_saved = None"
    and "show_error E = None"
  shows "\<exists>fig. plot_training E fs =
           \<lparr>outcome = Finished,
            files = fs(''training_metrics.png'' \<mapsto> render E fig 150 ''tight''),
            events = [Savefig ''training_metrics.png'' fig 150 ''tight'',
                      Print msg_saved, Show fig]\<rparr> \<and>
           saved (events (plot_training E fs)) = [(''training_metrics.png'', fig, 150, ''tight'')] \<and>
           printed (events (plot_training E fs)) = [msg_saved] \<and>
           exit_code (outcome (plot_training E fs)) = 0"
proof -
  from build_figure_ok [OF assms(3), of E] assms(4) obtain fig where
    fig: "build_figure E df = Inr fig"
    by blast
  from assms(3) have ne: "\<not> df_empty df"
    by (auto simp: well_formed_def df_empty_def required_columns_def)
  from assms(6) have pr: "py_print E msg_saved = None"
    by (simp add: py_print_def)
  have "plot_training E fs =
           \<lparr>outcome = Finished,
            files = fs(''training_metrics.png'' \<mapsto> render E fig 150 ''tight''),
            events = [Savefig ''training_metrics.png'' fig 150 ''tight'',
                      Print msg_saved, Show fig]\<rparr>"
    using assms(1,2,5,7) fig ne pr
    by (simp add: plot_training_def read_csv_def plt_savefig_def)
  then show ?thesis
    by simp
qed

theorem well_formed_input_succeeds_witness:
  "[''train-log.csv'' \<mapsto> example_csv] ''train-log.csv'' = Some example_csv \<and>
   parse_csv example_env example_csv = Inr example_df \<and>
   well_formed example_df \<and>
   (\<forall>ax x y. plot_error example_env ax x y =
               (if length x = length y then None else Some ValueError)) \<and>
   savefig_error example_env ''training_metrics.png'' = None \<and>
   print_error example_env msg_saved = None \<and>
   show_error example_env = None \<and>
   (\<exists>fig. plot_training example_env [''train-log.csv'' \<mapsto> example_csv] =
           \<lparr>outcome = Finished,
            files = [''train-log.csv'' \<mapsto> example_csv,
                     ''training_metrics.png'' \<mapsto> render example_env fig 150 ''tight''],
            events = [Savefig ''training_metrics.png'' fig 150 ''tight'',
                      Print msg_saved, Show fig]\<rparr>) \<and>
   exit_code (outcome (plot_training example_env [''train-log.csv'' \<mapsto> example_csv])) = 0"
proof -
  have h1: "[''train-log.csv'' \<mapsto> example_csv] ''train-log.csv'' = Some example_csv"
    by simp
  have h2: "parse_csv example_env example_csv = Inr example_df"
    by (rule example_parse_simps)
  have h4: "\<And>ax x y. list_all is_num x \<Longrightarrow> list_all is_num y \<Longrightarrow> length x = length y \<Longrightarrow>
           plot_error example_env ax x y = None"
    by (simp add: example_env_simps)
  have h5: "savefig_error example_env ''training_metrics.png'' = None"
    by (rule example_env_simps)
  have h6: "print_error example_env msg_saved = None"
    by (rule example_env_simps)
  have h7: "show_error example_env = None"
    by (rule example_env_simps)
  from well_formed_input_succeeds
    [where fs = "[''train-log.csv'' \<mapsto> example_csv]" and E = example_env,
      OF h1 h2 example_well_formed h4 h5 h6 h7]
  obtain fig where
    "plot_training example_env [''train-log.csv'' \<mapsto> example_csv] =
           \<lparr>outcome = Finished,
            files = [''train-log.csv'' \<mapsto> example_csv,
                     ''training_metrics.png'' \<mapsto> render example_env fig 150 ''tight''],
            events = [Savefig ''training_metrics.png'' fig 150 ''tight'',
                      Print msg_saved, Show fig]\<rparr>"
    by blast
  with h1 h2 example_well_formed h5 h6 h7 show ?thesis
    by (auto simp: example_env_simps)
qed

lemma example_finished:
  "outcome (plot_training example_env [''train-log.csv'' \<mapsto> example_csv]) = Finished"
proof -
  from build_figure_ok [OF example_well_formed, of example_env] obtain fig where
    "build_figure example_env example_df = Inr fig"
    by (auto simp: example_env_simps)
  then show ?thesis
    by (simp add: plot_training_def example_read example_not_empty plt_savefig_def
        example_env_simps)
qed

subsection \<open>Malformed input\<close>

lemma bindE_Inl_iff: "bindE m f = Inl e \<longleftrightarrow> m = Inl e \<or> (\<exists>x. m = Inr x \<and> f x = Inl e)"
  by (cases m) simp_all

lemma getitem_Inl_iff: "getitem df k = Inl e \<longleftrightarrow> map_of (cols df) k = None \<and> e = KeyError k"
  by (auto simp: getitem_def split: option.splits)

lemma ax_plot_Inl_iff: "ax_plot E x y kw ax = Inl e \<longleftrightarrow> plot_error E ax x y = Some e"
  by (simp add: ax_plot_def split: option.splits)

text \<open>
  What the four plotting blocks raise: the \<open>KeyError\<close> of a required column that is
  missing, or what \<open>Axes.plot\<close> raised.
\<close>

lemma plot_rewards_Inl:
  assumes "plot_rewards E df ax = Inl e"
  shows "(\<exists>k. k \<in> set required_columns \<and> map_of (cols df) k = None \<and> e = KeyError k) \<or>
         (\<exists>ax x y. plot_error E ax x y = Some e)"
proof -
  have c: "\<And>k. k \<in> set required_columns \<Longrightarrow> getitem df k = Inl e \<Longrightarrow> ?thesis"
    by (auto simp: getitem_Inl_iff)
  have p: "\<And>x y kw ax'. ax_plot E x y kw ax' = Inl e \<Longrightarrow> ?thesis"
    by (auto simp: ax_plot_Inl_iff)
  have m: "''episode'' \<in> set required_columns"
    "''reward'' \<in> set required_columns"
    "''avg100'' \<in> set required_columns"
    by (simp_all add: required_columns_def)
  from assms consider
      "getitem df ''episode'' = Inl e" |
      "getitem df ''reward'' = Inl e" |
      "getitem df ''avg100'' = Inl e" |
      x y kw ax' where "ax_plot E x y kw ax' = Inl e"
    unfolding plot_rewards_def Let_def bindE_Inl_iff by blast
  then show ?thesis
    using c m p by cases blast+
qed

lemma plot_loss_Inl:
  assumes "plot_loss E df ax = Inl e"
  shows "(\<exists>k. k \<in> set required_columns \<and> map_of (cols df) k = None \<and> e = KeyError k) \<or>
         (\<exists>ax x y. plot_error E ax x y = Some e)"
proof -
  have c: "\<And>k. k \<in> set required_columns \<Longrightarrow> getitem df k = Inl e \<Longrightarrow> ?thesis"
    by (auto simp: getitem_Inl_iff)
  have p: "\<And>x y kw ax'. ax_plot E x y kw ax' = Inl e \<Longrightarrow> ?thesis"
    by (auto simp: ax_plot_Inl_iff)
  have m: "''episode'' \<in> set required_columns"
    "''loss'' \<in> set required_columns"
    by (simp_all add: required_columns_def)
  from assms consider
      "getitem df ''episode'' = Inl e" |
      "getitem df ''loss'' = Inl e" |
      x y kw ax' where "ax_plot E x y kw ax' = Inl e"
    unfolding plot_loss_def Let_def bindE_Inl_iff by blast
  then show ?thesis
    using c m p by cases blast+
qed

lemma plot_epsilon_Inl:
  assumes "plot_epsilon E df ax = Inl e"
  shows "(\<exists>k. k \<in> set required_columns \<and> map_of (cols df) k = None \<and> e = KeyError k) \<or>
         (\<exists>ax x y. plot_error E ax x y = Some e)"
proof -
  have c: "\<And>k. k \<in> set required_columns \<Longrightarrow> getitem df k = Inl e \<Longrightarrow> ?thesis"
    by (auto simp: getitem_Inl_iff)
  have p: "\<And>x y kw ax'. ax_plot E x y kw ax' = Inl e \<Longrightarrow> ?thesis"
    by (auto simp: ax_plot_Inl_iff)
  have m: "''episode'' \<in> set required_columns"
    "''epsilon'' \<in> set required_columns"
    by (simp_all add: required_columns_def)
  from assms consider
      "getitem df ''episode'' = Inl e" |
      "getitem df ''epsilon'' = Inl e" |
      x y kw ax' where "ax_plot E x y kw ax' = Inl e"
    unfolding plot_epsilon_def Let_def bindE_Inl_iff by blast
  then show ?thesis
    using c m p by cases blast+
qed

lemma plot_throughput_Inl:
  assumes "plot_throughput E df ax = Inl e"
  shows "(\<exists>k. k \<in> set required_columns \<and> map_of (cols df) k = None \<and> e = KeyError k) \<or>
         (\<exists>ax x y. plot_error E ax x y = Some e)"
proof -
  have c: "\<And>k. k \<in> set required_columns \<Longrightarrow> getitem df k = Inl e \<Longrightarrow> ?thesis"
    by (auto simp: getitem_Inl_iff)
  have p: "\<And>x y kw ax'. ax_plot E x y kw ax' = Inl e \<Longrightarrow> ?thesis"
    by (auto simp: ax_plot_Inl_iff)
  have m: "''episode'' \<in> set required_columns"
    "''steps_per_sec'' \<in> set required_columns"
    by (simp_all add: required_columns_def)
  from assms consider
      "getitem df ''episode'' = Inl e" |
      "getitem df ''steps_per_sec'' = Inl e" |
      x y kw ax' where "ax_plot E x y kw ax' = Inl e"
    unfolding plot_throughput_def Let_def bindE_Inl_iff by blast
  then show ?thesis
    using c m p by cases blast+
qed

lemma on_axes_shape:
  assumes "on_axes i j body fig = Inr fig'"
  shows "map length (axes_grid fig') = map length (axes_grid fig)"
proof -
  from on_axes_Inr[OF assms] obtain ax where
    i: "i < length (axes_grid fig)" and
    f: "fig' = fig\<lparr>axes_grid := (axes_grid fig)[i := (axes_grid fig ! i)[j := ax]]\<rparr>"
    by blast
  show ?thesis
    unfolding f using i by (simp add: map_update list_update_same_conv)
qed

lemma on_axes_Inl:
  assumes "on_axes i j body fig = Inl e"
    and "map length (axes_grid fig) = [2, 2]" and "i < 2" and "j < 2"
  shows "body (axes_grid fig ! i ! j) = Inl e"
proof -
  from assms(2) have n: "length (axes_grid fig) = 2"
    by (metis length_map length_Cons list.size(3) numeral_2_eq_2)
  with assms(2,3) have "length (axes_grid fig ! i) = [2, 2] ! i"
    by (metis nth_map)
  with assms(3) have "length (axes_grid fig ! i) = 2"
    by (cases i) (simp_all add: less_Suc_eq)
  with assms(1,3,4) n show ?thesis
    by (simp add: on_axes_def bindE_Inl_iff)
qed

lemma build_figure_Inl:
  assumes "build_figure E df = Inl e"
  shows "(\<exists>k. k \<in> set required_columns \<and> map_of (cols df) k = None \<and> e = KeyError k) \<or>
         (\<exists>ax x y. plot_error E ax x y = Some e)"
proof -
  let ?f0 = "fig_suptitle ''Breakout RL Training Metrics'' 16 ''bold'' (subplots 2 2 (14, 10))"
  have s0: "map length (axes_grid ?f0) = [2, 2]"
    by (simp add: fig_suptitle_def subplots_def grid_2x2)
  from assms consider
      (first) "on_axes 0 0 (plot_rewards E df) ?f0 = Inl e"
    | (second) f1 where "on_axes 0 0 (plot_rewards E df) ?f0 = Inr f1"
        "on_axes 0 1 (plot_loss E df) f1 = Inl e"
    | (third) f1 f2 where "on_axes 0 0 (plot_rewards E df) ?f0 = Inr f1"
        "on_axes 0 1 (plot_loss E df) f1 = Inr f2"
        "on_axes 1 0 (plot_epsilon E df) f2 = Inl e"
    | (fourth) f1 f2 f3 where "on_axes 0 0 (plot_rewards E df) ?f0 = Inr f1"
        "on_axes 0 1 (plot_loss E df) f1 = Inr f2"
        "on_axes 1 0 (plot_epsilon E df) f2 = Inr f3"
        "on_axes 1 1 (plot_throughput E df) f3 = Inl e"
    by (auto simp: build_figure_def Let_def bindE_Inl_iff)
  then show ?thesis
  proof cases
    case first
    from on_axes_Inl[OF first s0] show ?thesis
      by (auto dest: plot_rewards_Inl)
  next
    case second
    from on_axes_shape[OF second(1)] s0 have "map length (axes_grid f1) = [2, 2]"
      by simp
    from on_axes_Inl[OF second(2) this] show ?thesis
      by (auto dest: plot_loss_Inl)
  next
    case third
    from on_axes_shape[OF third(1)] on_axes_shape[OF third(2)] s0
    have "map length (axes_grid f2) = [2, 2]"
      by simp
    from on_axes_Inl[OF third(3) this] show ?thesis
      by (auto dest: plot_epsilon_Inl)
  next
    case fourth
    from on_axes_shape[OF fourth(1)] on_axes_shape[OF fourth(2)] on_axes_shape[OF fourth(3)] s0
    have "map length (axes_grid f3) = [2, 2]"
      by simp
    from on_axes_Inl[OF fourth(4) this] show ?thesis
      by (auto dest: plot_throughput_Inl)
  qed
qed

lemma short_build: "build_figure example_env short_df = Inl (KeyError ''avg100'')"
  by (simp add: build_figure_def Let_def subplots_def fig_suptitle_def grid_2x2 on_axes_def
      plot_rewards_def getitem_def short_df_def ax_plot_def example_env_simps)

lemma text_build: "\<exists>fig. build_figure example_env text_df = Inr fig"
  by (rule build_figure_accepted
      [where x = "[Num 0]" and r = "[Num 1]" and a = "[Num 1]" and l = "[Str ''abc'']"
        and e = "[Num 1]" and s = "[Num 50]"])
    (simp_all add: getitem_def text_df_def example_env_simps)

text \<open>
  Claim C4, as the specification has it, fails for a value that is not a number: the
  script hands the column to \<open>Axes.plot\<close> unchecked, and with a library that plots
  such values (as categories) the run on a log whose loss is \<open>abc\<close> finishes with exit
  code 0, the image written and the confirmation printed.
\<close>

theorem non_numeric_value_is_plotted:
  "read_csv example_env [''train-log.csv'' \<mapsto> text_csv] ''train-log.csv'' = Inr text_df \<and>
   getitem text_df ''loss'' = Inr [Str ''abc''] \<and>
   \<not> list_all is_num [Str ''abc''] \<and>
   outcome (plot_training example_env [''train-log.csv'' \<mapsto> text_csv]) = Finished \<and>
   exit_code (outcome (plot_training example_env [''train-log.csv'' \<mapsto> text_csv])) = 0 \<and>
   length (saved (events (plot_training example_env [''train-log.csv'' \<mapsto> text_csv]))) = 1 \<and>
   printed (events (plot_training example_env [''train-log.csv'' \<mapsto> text_csv])) = [msg_saved]"
proof -
  from text_build obtain fig where "build_figure example_env text_df = Inr fig"
    by blast
  then have "plot_training example_env [''train-log.csv'' \<mapsto> text_csv] =
      \<lparr>outcome = Finished,
       files = [''train-log.csv'' \<mapsto> text_csv,
                ''training_metrics.png'' \<mapsto> render example_env fig 150 ''tight''],
       events = [Savefig ''training_metrics.png'' fig 150 ''tight'', Print msg_saved, Show fig]\<rparr>"
    by (simp add: plot_training_def example_read example_not_empty plt_savefig_def
        example_env_simps)
  then show ?thesis
    by (simp add: example_read getitem_def text_df_def)
qed

text \<open>
  Claim C4, amended. The script handles nothing but the missing file and the empty
  table. An exception of \<open>pd.read_csv\<close> other than \<open>FileNotFoundError\<close>, and every
  exception raised while the figure is built from a table that is not empty, reaches
  the top level as it is: nothing is printed and nothing is written. When a required
  column is missing from a table that is not empty the run ends so, with the
  \<open>KeyError\<close> of a missing required column or with what \<open>Axes.plot\<close> raised before.
  Values are not checked: when the six columns are present and \<open>Axes.plot\<close> accepts
  them, whatever they hold, the image is written. The script ends by \<open>sys.exit\<close> only
  with status 1 and only for a missing file or an empty table: the emptiness check is
  the only validation.
\<close>

theorem malformed_input_not_handled:
  "(\<forall>e. read_csv E fs ''train-log.csv'' = Inl e \<and> e \<noteq> FileNotFoundError \<longrightarrow>
        plot_training E fs = \<lparr>outcome = Uncaught e, files = fs, events = []\<rparr>) \<and>
   (\<forall>df e. read_csv E fs ''train-log.csv'' = Inr df \<and> \<not> df_empty df \<and>
        build_figure E df = Inl e \<longrightarrow>
        plot_training E fs = \<lparr>outcome = Uncaught e, files = fs, events = []\<rparr>) \<and>
   (\<forall>df k. read_csv E fs ''train-log.csv'' = Inr df \<and> \<not> df_empty df \<and>
        k \<in> set required_columns \<and> map_of (cols df) k = None \<longrightarrow>
        (\<exists>e. plot_training E fs = \<lparr>outcome = Uncaught e, files = fs, events = []\<rparr> \<and>
             ((\<exists>k'. k' \<in> set required_columns \<and> map_of (cols df) k' = None \<and>
                    e = KeyError k') \<or>
              (\<exists>ax x y. plot_error E ax x y = Some e)))) \<and>
   (\<forall>df x r a l e s. read_csv E fs ''train-log.csv'' = Inr df \<and> \<not> df_empty df \<and>
        getitem df ''episode'' = Inr x \<and>
        getitem df ''reward'' = Inr r \<and> (\<forall>ax. plot_error E ax x r = None) \<and>
        getitem df ''avg100'' = Inr a \<and> (\<forall>ax. plot_error E ax x a = None) \<and>
        getitem df ''loss'' = Inr l \<and> (\<forall>ax. plot_error E ax x l = None) \<and>
        getitem df ''epsilon'' = Inr e \<and> (\<forall>ax. plot_error E ax x e = None) \<and>
        getitem df ''steps_per_sec'' = Inr s \<and> (\<forall>ax. plot_error E ax x s = None) \<and>
        savefig_error E ''training_metrics.png'' = None \<longrightarrow>
        length (saved (events (plot_training E fs))) = 1 \<and>
        files (plot_training E fs) ''training_metrics.png'' \<noteq> None) \<and>
   (\<forall>n. outcome (plot_training E fs) = SysExit n \<longrightarrow>
        n = 1 \<and>
        (read_csv E fs ''train-log.csv'' = Inl FileNotFoundError \<or>
         (\<exists>df. read_csv E fs ''train-log.csv'' = Inr df \<and> df_empty df)))"
proof (intro conjI allI impI)
  fix e
  assume "read_csv E fs ''train-log.csv'' = Inl e \<and> e \<noteq> FileNotFoundError"
  then show "plot_training E fs = \<lparr>outcome = Uncaught e, files = fs, events = []\<rparr>"
    by (simp add: plot_training_def)
next
  fix df :: dataframe and e
  assume "read_csv E fs ''train-log.csv'' = Inr df \<and> \<not> df_empty df \<and>
    build_figure E df = Inl e"
  then show "plot_training E fs = \<lparr>outcome = Uncaught e, files = fs, events = []\<rparr>"
    by (simp add: plot_training_def)
next
  fix df :: dataframe and k
  assume a: "read_csv E fs ''train-log.csv'' = Inr df \<and> \<not> df_empty df \<and>
        k \<in> set required_columns \<and> map_of (cols df) k = None"
  then obtain e where b: "build_figure E df = Inl e"
    using build_figure_needs_column by blast
  with a have "plot_training E fs = \<lparr>outcome = Uncaught e, files = fs, events = []\<rparr>"
    by (simp add: plot_training_def)
  with build_figure_Inl[OF b]
  show "\<exists>e. plot_training E fs = \<lparr>outcome = Uncaught e, files = fs, events = []\<rparr> \<and>
             ((\<exists>k'. k' \<in> set required_columns \<and> map_of (cols df) k' = None \<and>
                    e = KeyError k') \<or>
              (\<exists>ax x y. plot_error E ax x y = Some e))"
    by blast
next
  fix df :: dataframe and x r a l e s
  assume a: "read_csv E fs ''train-log.csv'' = Inr df \<and> \<not> df_empty df \<and>
        getitem df ''episode'' = Inr x \<and>
        getitem df ''reward'' = Inr r \<and> (\<forall>ax. plot_error E ax x r = None) \<and>
        getitem df ''avg100'' = Inr a \<and> (\<forall>ax. plot_error E ax x a = None) \<and>
        getitem df ''loss'' = Inr l \<and> (\<forall>ax. plot_error E ax x l = None) \<and>
        getitem df ''epsilon'' = Inr e \<and> (\<forall>ax. plot_error E ax x e = None) \<and>
        getitem df ''steps_per_sec'' = Inr s \<and> (\<forall>ax. plot_error E ax x s = None) \<and>
        savefig_error E ''training_metrics.png'' = None"
  then obtain fig where b: "build_figure E df = Inr fig"
    using build_figure_accepted [of df x r E a l e s] by blast
  with a have w: "length (saved (events (plot_training E fs))) = 1 \<and>
        files (plot_training E fs) ''training_metrics.png'' \<noteq> None"
    by (simp add: plot_training_def plt_savefig_def split: option.splits)
  from w show "length (saved (events (plot_training E fs))) = 1"
    by simp
  from w show "files (plot_training E fs) ''training_metrics.png'' \<noteq> None"
    by simp
next
  fix n
  assume s: "outcome (plot_training E fs) = SysExit n"
  show "n = 1"
    using s by (cases rule: plot_training_cases[of E fs]) (auto split: option.splits)
  show "read_csv E fs ''train-log.csv'' = Inl FileNotFoundError \<or>
         (\<exists>df. read_csv E fs ''train-log.csv'' = Inr df \<and> df_empty df)"
    using s by (cases rule: plot_training_cases[of E fs]) (auto split: option.splits)
qed

theorem malformed_input_not_handled_witness:
  "read_csv example_env [''train-log.csv'' \<mapsto> short_csv] ''train-log.csv'' = Inr short_df \<and>
   \<not> df_empty short_df \<and>
   ''avg100'' \<in> set required_columns \<and> map_of (cols short_df) ''avg100'' = None \<and>
   build_figure example_env short_df = Inl (KeyError ''avg100'') \<and>
   plot_training example_env [''train-log.csv'' \<mapsto> short_csv] =
     \<lparr>outcome = Uncaught (KeyError ''avg100''),
      files = [''train-log.csv'' \<mapsto> short_csv], events = []\<rparr>"
  using malformed_input_not_handled [of example_env "[''train-log.csv'' \<mapsto> short_csv]"]
    example_read example_not_empty short_build
  by (simp add: required_columns_def short_df_def)

subsection \<open>The image\<close>

text \<open>
  Claim C6. On a successful run the saved figure is a grid of two rows of two charts;
  every chart has an x label, a y label, a title and grid lines of opacity 0.3. The
  first chart holds exactly two lines, the \<open>reward\<close> and the \<open>avg100\<close> column against
  \<open>episode\<close>, each with its label, and a legend listing both. The reward line leaves
  width and colour to the configured defaults; the average line is given width 2 and
  the colour orange, so it is drawn heavier and in another colour whenever the default
  width is below 2 and the default colour is not orange (matplotlib ships 1.5 and
  \<open>#1f77b4\<close>).
\<close>

theorem saved_figure_layout:
  assumes "outcome (plot_training E fs) = Finished"
    and "rc_linewidth < 2"
    and "rc_color \<noteq> ''orange''"
  shows "\<exists>fig df x r a l1 l2.
           saved (events (plot_training E fs)) = [(''training_metrics.png'', fig, 150, ''tight'')] \<and>
           read_csv E fs ''train-log.csv'' = Inr df \<and>
           getitem df ''episode'' = Inr x \<and> getitem df ''reward'' = Inr r \<and>
           getitem df ''avg100'' = Inr a \<and>
           length (axes_grid fig) = 2 \<and>
           list_all (\<lambda>row. length row = 2) (axes_grid fig) \<and>
           list_all (list_all (\<lambda>ax. xlabel ax \<noteq> [] \<and> ylabel ax \<noteq> [] \<and> title ax \<noteq> [] \<and>
                                     grid ax = Some (True, Some 0.3)))
             (axes_grid fig) \<and>
           lines (axes_grid fig ! 0 ! 0) = [l1, l2] \<and>
           xdata l1 = x \<and> ydata l1 = r \<and> xdata l2 = x \<and> ydata l2 = a \<and>
           label l1 = Some ''Episode Reward'' \<and> label l2 = Some ''Avg100 Reward'' \<and>
           legend (axes_grid fig ! 0 ! 0) = Some [''Episode Reward'', ''Avg100 Reward''] \<and>
           linewidth l1 = None \<and> linewidth l2 = Some 2 \<and>
           color l1 = None \<and> color l2 = Some ''orange'' \<and>
           drawn_linewidth rc_linewidth l1 < drawn_linewidth rc_linewidth l2 \<and>
           drawn_color rc_color l1 \<noteq> drawn_color rc_color l2"
proof -
  from assms(1) obtain df fig where
    rd: "read_csv E fs ''train-log.csv'' = Inr df" and
    bf: "build_figure E df = Inr fig" and
    run: "plot_training E fs =
         \<lparr>outcome = Finished,
          files = fs(''training_metrics.png'' \<mapsto> render E fig 150 ''tight''),
          events = [Savefig ''training_metrics.png'' fig 150 ''tight'',
                    Print msg_saved, Show fig]\<rparr>"
    by (rule saved_run)
  from build_figure_Inr[OF bf] obtain x r a l e s where
    g: "getitem df ''episode'' = Inr x" "getitem df ''reward'' = Inr r"
       "getitem df ''avg100'' = Inr a" and
    fig: "fig = \<lparr>figsize = (14, 10),
                  suptitle = Some (''Breakout RL Training Metrics'', 16, ''bold''),
                  axes_grid =
                   [[\<lparr>lines =
                        [\<lparr>alpha = Some 0.6, label = Some ''Episode Reward'', linewidth = None,
                          color = None, xdata = x, ydata = r\<rparr>,
                         \<lparr>alpha = None, label = Some ''Avg100 Reward'', linewidth = Some 2,
                          color = Some ''orange'', xdata = x, ydata = a\<rparr>],
                      xlabel = ''Episode'', ylabel = ''Reward'', title = ''Rewards'',
                      legend = Some [''Episode Reward'', ''Avg100 Reward''],
                      grid = Some (True, Some 0.3)\<rparr>,
                     \<lparr>lines =
                        [\<lparr>alpha = Some 0.7, label = None, linewidth = None,
                          color = Some ''red'', xdata = x, ydata = l\<rparr>],
                      xlabel = ''Episode'', ylabel = ''Loss (EMA)'', title = ''Training Loss'',
                      legend = None, grid = Some (True, Some 0.3)\<rparr>],
                    [\<lparr>lines =
                        [\<lparr>alpha = None, label = None, linewidth = None,
                          color = Some ''green'', xdata = x, ydata = e\<rparr>],
                      xlabel = ''Episode'', ylabel = ''Epsilon'',
                      title = ''Exploration Rate Decay'',
                      legend = None, grid = Some (True, Some 0.3)\<rparr>,
                     \<lparr>lines =
                        [\<lparr>alpha = Some 0.7, label = None, linewidth = None,
                          color = Some ''purple'', xdata = x, ydata = s\<rparr>],
                      xlabel = ''Episode'', ylabel = ''Steps/Second'',
                      title = ''Training Throughput'',
                      legend = None, grid = Some (True, Some 0.3)\<rparr>]],
                  tight_layout = True\<rparr>"
    by blast
  let ?l1 = "\<lparr>alpha = Some 0.6, label = Some ''Episode Reward'', linewidth = None,
                          color = None, xdata = x, ydata = r\<rparr>"
  let ?l2 = "\<lparr>alpha = None, label = Some ''Avg100 Reward'', linewidth = Some 2,
                          color = Some ''orange'', xdata = x, ydata = a\<rparr>"
  have sv: "saved (events (plot_training E fs)) = [(''training_metrics.png'', fig, 150, ''tight'')]"
    by (simp add: run)
  have grid: "length (axes_grid fig) = 2" "list_all (\<lambda>row. length row = 2) (axes_grid fig)"
     "list_all (list_all (\<lambda>ax. xlabel ax \<noteq> [] \<and> ylabel ax \<noteq> [] \<and> title ax \<noteq> [] \<and>
                                     grid ax = Some (True, Some 0.3)))
             (axes_grid fig)"
    by (simp_all add: fig)
  have first: "lines (axes_grid fig ! 0 ! 0) = [?l1, ?l2]"
    "legend (axes_grid fig ! 0 ! 0) = Some [''Episode Reward'', ''Avg100 Reward'']"
    by (simp_all add: fig)
  have drawn: "drawn_linewidth rc_linewidth ?l1 < drawn_linewidth rc_linewidth ?l2"
    "drawn_color rc_color ?l1 \<noteq> drawn_color rc_color ?l2"
    using assms(2,3) by (simp_all add: drawn_linewidth_def drawn_color_def)
  show ?thesis
    apply (rule exI[of _ fig], rule exI[of _ df], rule exI[of _ x], rule exI[of _ r],
        rule exI[of _ a], rule exI[of _ ?l1], rule exI[of _ ?l2])
    using sv rd g grid first drawn by simp
qed

theorem saved_figure_layout_witness:
  "outcome (plot_training example_env [''train-log.csv'' \<mapsto> example_csv]) = Finished \<and>
   (1.5 :: real) < 2 \<and> ''#1f77b4'' \<noteq> ''orange'' \<and>
   (\<exists>fig l1 l2.
      saved (events (plot_training example_env [''train-log.csv'' \<mapsto> example_csv])) =
        [(''training_metrics.png'', fig, 150, ''tight'')] \<and>
      length (axes_grid fig) = 2 \<and>
      list_all (\<lambda>row. length row = 2) (axes_grid fig) \<and>
      lines (axes_grid fig ! 0 ! 0) = [l1, l2] \<and>
      drawn_linewidth 1.5 l1 < drawn_linewidth 1.5 l2 \<and>
      drawn_color ''#1f77b4'' l1 \<noteq> drawn_color ''#1f77b4'' l2)"
proof -
  have h2: "(1.5 :: real) < 2" by simp
  have h3: "''#1f77b4'' \<noteq> ''orange''" by simp
  from saved_figure_layout [OF example_finished h2 h3] example_finished h2 h3
  show ?thesis
    by blast
qed

text \<open>
  Claim C7. Whatever the directory and the environment, every image the run writes is
  written as \<open>training_metrics.png\<close> in the working directory, at 150 dots per inch
  and with the tight bounding box; a run that finishes has written exactly that one
  image. No input changes the name, the resolution or the cropping.
\<close>

theorem output_name_and_resolution_fixed:
  "list_all (\<lambda>(f, fig, dpi, bbox_inches).
               f = ''training_metrics.png'' \<and> dpi = 150 \<and> bbox_inches = ''tight'')
     (saved (events (plot_training E fs))) \<and>
   (outcome (plot_training E fs) = Finished \<longrightarrow>
     (\<exists>fig. saved (events (plot_training E fs)) =
              [(''training_metrics.png'', fig, 150, ''tight'')] \<and>
            files (plot_training E fs) ''training_metrics.png'' =
              Some (render E fig 150 ''tight'')))"
  by (cases rule: plot_training_cases[of E fs]) (auto split: option.splits)

theorem output_name_and_resolution_fixed_witness:
  "outcome (plot_training example_env [''train-log.csv'' \<mapsto> example_csv]) = Finished \<and>
   (\<exists>fig. saved (events (plot_training example_env [''train-log.csv'' \<mapsto> example_csv])) =
              [(''training_metrics.png'', fig, 150, ''tight'')] \<and>
          files (plot_training example_env [''train-log.csv'' \<mapsto> example_csv])
              ''training_metrics.png'' =
              Some (render example_env fig 150 ''tight''))"
  using output_name_and_resolution_fixed
      [of example_env "[''train-log.csv'' \<mapsto> example_csv]"] example_finished
  by blast

subsection \<open>Effects on the working directory\<close>

text \<open>
  Claim C8. Every run writes at most one file. Every file of the working directory
  other than \<open>training_metrics.png\<close> is left as it was, the input \<open>train-log.csv\<close>
  among them, and the table is not changed between reading and plotting: the lines of
  a saved figure hold exactly the columns of the table as it was read.
\<close>

theorem only_the_image_is_written:
  "length (saved (events (plot_training E fs))) \<le> 1 \<and>
   (\<forall>p. p \<noteq> ''training_metrics.png'' \<longrightarrow> files (plot_training E fs) p = fs p) \<and>
   files (plot_training E fs) ''train-log.csv'' = fs ''train-log.csv'' \<and>
   (\<forall>f fig d b. (f, fig, d, b) \<in> set (saved (events (plot_training E fs))) \<longrightarrow>
      (\<exists>df. read_csv E fs ''train-log.csv'' = Inr df \<and>
         map (map (\<lambda>ax. map (\<lambda>l. (Inr (xdata l), Inr (ydata l))) (lines ax))) (axes_grid fig) =
           [[[(getitem df ''episode'', getitem df ''reward''),
              (getitem df ''episode'', getitem df ''avg100'')],
             [(getitem df ''episode'', getitem df ''loss'')]],
            [[(getitem df ''episode'', getitem df ''epsilon'')],
             [(getitem df ''episode'', getitem df ''steps_per_sec'')]]]))"
proof (cases rule: plot_training_cases[of E fs])
  case (saved df fig)
  from build_figure_Inr[OF saved(3)]
  have "map (map (\<lambda>ax. map (\<lambda>l. (Inr (xdata l), Inr (ydata l))) (lines ax))) (axes_grid fig) =
           [[[(getitem df ''episode'', getitem df ''reward''),
              (getitem df ''episode'', getitem df ''avg100'')],
             [(getitem df ''episode'', getitem df ''loss'')]],
            [[(getitem df ''episode'', getitem df ''epsilon'')],
             [(getitem df ''episode'', getitem df ''steps_per_sec'')]]]"
    by auto
  with saved(1,6) show ?thesis
    by simp
next
  case (print_error df fig e)
  from build_figure_Inr[OF print_error(3)]
  have "map (map (\<lambda>ax. map (\<lambda>l. (Inr (xdata l), Inr (ydata l))) (lines ax))) (axes_grid fig) =
           [[[(getitem df ''episode'', getitem df ''reward''),
              (getitem df ''episode'', getitem df ''avg100'')],
             [(getitem df ''episode'', getitem df ''loss'')]],
            [[(getitem df ''episode'', getitem df ''epsilon'')],
             [(getitem df ''episode'', getitem df ''steps_per_sec'')]]]"
    by auto
  with print_error(1,6) show ?thesis
    by simp
qed simp_all

theorem only_the_image_is_written_witness:
  "length (saved (events (plot_training example_env
      [''train-log.csv'' \<mapsto> example_csv, ''notes.txt'' \<mapsto> ''x'']))) \<le> 1 \<and>
   files (plot_training example_env
      [''train-log.csv'' \<mapsto> example_csv, ''notes.txt'' \<mapsto> ''x'']) ''notes.txt'' = Some ''x'' \<and>
   files (plot_training example_env
      [''train-log.csv'' \<mapsto> example_csv, ''notes.txt'' \<mapsto> ''x'']) ''train-log.csv'' =
     Some example_csv"
  using only_the_image_is_written
      [of example_env "[''train-log.csv'' \<mapsto> example_csv, ''notes.txt'' \<mapsto> ''x'']"]
  by simp

text \<open>
  Claim C9. After a run that finished, a second run in the directory the first one left
  does exactly what the first did: the same outcome, the same calls with the same
  figure, and the same directory, the image overwritten by an equal rendering. Nothing
  accumulates.
\<close>

theorem second_run_repeats_first:
  assumes "outcome (plot_training E fs) = Finished"
  shows "plot_training E (files (plot_training E fs)) = plot_training E fs \<and>
         (\<exists>fig. saved (events (plot_training E fs)) =
                  [(''training_metrics.png'', fig, 150, ''tight'')] \<and>
                saved (events (plot_training E (files (plot_training E fs)))) =
                  [(''training_metrics.png'', fig, 150, ''tight'')] \<and>
                files (plot_training E (files (plot_training E fs))) ''training_metrics.png'' =
                  Some (render E fig 150 ''tight''))"
proof -
  from assms obtain df fig where
    rd: "read_csv E fs ''train-log.csv'' = Inr df" and ne: "\<not> df_empty df" and
    bf: "build_figure E df = Inr fig" and
    sf: "savefig_error E ''training_metrics.png'' = None" and
    pr: "py_print E msg_saved = None" and
    sh: "show_error E = None" and
    run: "plot_training E fs =
         \<lparr>outcome = Finished,
          files = fs(''training_metrics.png'' \<mapsto> render E fig 150 ''tight''),
          events = [Savefig ''training_metrics.png'' fig 150 ''tight'',
                    Print msg_saved, Show fig]\<rparr>"
    by (rule saved_run)
  let ?fs' = "fs(''training_metrics.png'' \<mapsto> render E fig 150 ''tight'')"
  have rd': "read_csv E ?fs' ''train-log.csv'' = Inr df"
    using rd by (simp add: read_csv_def)
  have again: "plot_training E ?fs' = plot_training E fs"
    unfolding run
    by (simp add: plot_training_def rd' ne bf sf pr sh plt_savefig_def)
  show ?thesis
    using again by (simp add: run)
qed

theorem second_run_repeats_first_witness:
  "outcome (plot_training example_env [''train-log.csv'' \<mapsto> example_csv]) = Finished \<and>
   plot_training example_env
      (files (plot_training example_env [''train-log.csv'' \<mapsto> example_csv])) =
     plot_training example_env [''train-log.csv'' \<mapsto> example_csv]"
  using second_run_repeats_first [OF example_finished] example_finished
  by blast

subsection \<open>Order of saving and display\<close>

text \<open>
  Claim C10. Whenever \<open>plt.show()\<close> is called, the image has been written before, by
  the \<open>plt.savefig\<close> that is the first call of the run, and the confirmation has been
  printed; the image is in the directory whether the display returns or raises.
\<close>

theorem image_saved_before_display:
  assumes "Show fig \<in> set (events (plot_training E fs))"
  shows "events (plot_training E fs) =
           [Savefig ''training_metrics.png'' fig 150 ''tight'', Print msg_saved, Show fig] \<and>
         files (plot_training E fs) ''training_metrics.png'' =
           Some (render E fig 150 ''tight'') \<and>
         outcome (plot_training E fs) =
           (case show_error E of Some e \<Rightarrow> Uncaught e | None \<Rightarrow> Finished)"
  using assms
  by (cases rule: plot_training_cases[of E fs]) (auto simp: msg_not_found_def msg_empty_def)

lemma broken_display_run:
  "\<exists>fig. plot_training broken_display_env [''train-log.csv'' \<mapsto> example_csv] =
     \<lparr>outcome = Uncaught (OtherError ''no display''),
      files = [''train-log.csv'' \<mapsto> example_csv,
               ''training_metrics.png'' \<mapsto> render broken_display_env fig 150 ''tight''],
      events = [Savefig ''training_metrics.png'' fig 150 ''tight'', Print msg_saved, Show fig]\<rparr>"
proof -
  from build_figure_ok [OF example_well_formed, of broken_display_env] obtain fig where
    "build_figure broken_display_env example_df = Inr fig"
    by (auto simp: example_env_simps)
  then show ?thesis
    by (simp add: plot_training_def example_read example_not_empty plt_savefig_def
        example_env_simps)
qed

theorem image_saved_before_display_witness:
  "\<exists>fig. Show fig \<in> set (events (plot_training broken_display_env [''train-log.csv'' \<mapsto> example_csv])) \<and>
     events (plot_training broken_display_env [''train-log.csv'' \<mapsto> example_csv]) =
       [Savefig ''training_metrics.png'' fig 150 ''tight'', Print msg_saved, Show fig] \<and>
     files (plot_training broken_display_env [''train-log.csv'' \<mapsto> example_csv])
        ''training_metrics.png'' = Some (render broken_display_env fig 150 ''tight'') \<and>
     outcome (plot_training broken_display_env [''train-log.csv'' \<mapsto> example_csv]) =
       Uncaught (OtherError ''no display'')"
proof -
  from broken_display_run obtain fig where
    h: "Show fig \<in> set (events (plot_training broken_display_env [''train-log.csv'' \<mapsto> example_csv]))"
    by auto
  from image_saved_before_display [OF h] h show ?thesis
    by (auto simp: example_env_simps)
qed

end
